theory Spec2Isabelle
  imports Complex_Main
begin

section \<open>JavaScript numbers and values\<close>

text \<open>
  A JavaScript number is a finite double, one of the two infinities, or NaN. Finite
  doubles are idealised as reals: rounding, overflow to an infinity and the sign of
  zero are not modelled. The values that the synthesizer stores in its dynamically
  typed fields are \<open>undefined\<close>, \<open>null\<close> or a number.
\<close>

datatype jsnum = Fin real | PInf | NInf | NaN

datatype jsval = Undefined | Null | Number jsnum

text \<open>Truthiness (\<open>if (v)\<close>, \<open>!v\<close>, \<open>v || d\<close>): 0 and NaN are falsy, as are undefined and null.\<close>

fun truthy_num :: "jsnum \<Rightarrow> bool" where
  "truthy_num (Fin x) = (x \<noteq> 0)"
| "truthy_num PInf = True"
| "truthy_num NInf = True"
| "truthy_num NaN = False"

fun truthy :: "jsval \<Rightarrow> bool" where
  "truthy Undefined = False"
| "truthy Null = False"
| "truthy (Number n) = truthy_num n"

text \<open>\<open>a || b\<close> on values.\<close>

definition js_or :: "jsval \<Rightarrow> jsval \<Rightarrow> jsval" where
  "js_or a b = (if truthy a then a else b)"

text \<open>ToNumber, applied by the arithmetic operators to their operands.\<close>

fun toNumber :: "jsval \<Rightarrow> jsnum" where
  "toNumber Undefined = NaN"
| "toNumber Null = Fin 0"
| "toNumber (Number n) = n"

fun isNaN :: "jsnum \<Rightarrow> bool" where
  "isNaN NaN = True"
| "isNaN (Fin x) = False"
| "isNaN PInf = False"
| "isNaN NInf = False"

fun isFinite :: "jsnum \<Rightarrow> bool" where
  "isFinite (Fin x) = True"
| "isFinite PInf = False"
| "isFinite NInf = False"
| "isFinite NaN = False"

fun jsneg :: "jsnum \<Rightarrow> jsnum" where
  "jsneg (Fin a) = Fin (- a)"
| "jsneg PInf = NInf"
| "jsneg NInf = PInf"
| "jsneg NaN = NaN"

fun jsadd :: "jsnum \<Rightarrow> jsnum \<Rightarrow> jsnum" where
  "jsadd NaN y = NaN"
| "jsadd x NaN = NaN"
| "jsadd (Fin a) (Fin b) = Fin (a + b)"
| "jsadd PInf NInf = NaN"
| "jsadd NInf PInf = NaN"
| "jsadd PInf y = PInf"
| "jsadd x PInf = PInf"
| "jsadd NInf y = NInf"
| "jsadd x NInf = NInf"

definition jssub :: "jsnum \<Rightarrow> jsnum \<Rightarrow> jsnum" where
  "jssub a b = jsadd a (jsneg b)"

fun jsmul :: "jsnum \<Rightarrow> jsnum \<Rightarrow> jsnum" where
  "jsmul NaN y = NaN"
| "jsmul x NaN = NaN"
| "jsmul (Fin a) (Fin b) = Fin (a * b)"
| "jsmul (Fin a) PInf = (if a = 0 then NaN else if 0 < a then PInf else NInf)"
| "jsmul (Fin a) NInf = (if a = 0 then NaN else if 0 < a then NInf else PInf)"
| "jsmul PInf (Fin b) = (if b = 0 then NaN else if 0 < b then PInf else NInf)"
| "jsmul NInf (Fin b) = (if b = 0 then NaN else if 0 < b then NInf else PInf)"
| "jsmul PInf PInf = PInf"
| "jsmul NInf NInf = PInf"
| "jsmul PInf NInf = NInf"
| "jsmul NInf PInf = NInf"

fun jsdiv :: "jsnum \<Rightarrow> jsnum \<Rightarrow> jsnum" where
  "jsdiv NaN y = NaN"
| "jsdiv x NaN = NaN"
| "jsdiv (Fin a) (Fin b) =
     (if b = 0 then (if a = 0 then NaN else if 0 < a then PInf else NInf) else Fin (a / b))"
| "jsdiv (Fin a) PInf = Fin 0"
| "jsdiv (Fin a) NInf = Fin 0"
| "jsdiv PInf (Fin b) = (if 0 \<le> b then PInf else NInf)"
| "jsdiv NInf (Fin b) = (if 0 \<le> b then NInf else PInf)"
| "jsdiv x y = NaN"

text \<open>\<open>a < b\<close>; every comparison with NaN is false.\<close>

fun jslt :: "jsnum \<Rightarrow> jsnum \<Rightarrow> bool" where
  "jslt NaN y = False"
| "jslt x NaN = False"
| "jslt (Fin a) (Fin b) = (a < b)"
| "jslt NInf NInf = False"
| "jslt NInf y = True"
| "jslt x NInf = False"
| "jslt PInf y = False"
| "jslt x PInf = True"

definition jsgt :: "jsnum \<Rightarrow> jsnum \<Rightarrow> bool" where
  "jsgt a b = jslt b a"

text \<open>
  \<open>Math.max(...xs)\<close> and \<open>Math.min(...xs)\<close>: NaN as soon as one argument is NaN,
  \<open>-Infinity\<close> and \<open>Infinity\<close> on no arguments.
\<close>

definition max2 :: "jsnum \<Rightarrow> jsnum \<Rightarrow> jsnum" where
  "max2 acc x = (if isNaN acc \<or> isNaN x then NaN else if jslt acc x then x else acc)"

definition min2 :: "jsnum \<Rightarrow> jsnum \<Rightarrow> jsnum" where
  "min2 acc x = (if isNaN acc \<or> isNaN x then NaN else if jslt x acc then x else acc)"

definition Math_max :: "jsnum list \<Rightarrow> jsnum" where
  "Math_max xs = foldl max2 NInf xs"

definition Math_min :: "jsnum list \<Rightarrow> jsnum" where
  "Math_min xs = foldl min2 PInf xs"

section \<open>The audio context\<close>

text \<open>
  The Web Audio nodes are external to the repository. The model records what the code
  sends to them: the values it assigns to a node's parameters, the automation calls it
  makes, the connections it requests and the calls of \<open>start\<close>. A node is addressed
  by a handle; \<open>createGain\<close>, \<open>createOscillator\<close> and \<open>createBiquadFilter\<close>
  hand out the next unused handle. The parameter values of a new node are the defaults
  of the Web Audio API.
\<close>

datatype node_kind = GainNode | OscillatorNode | BiquadFilterNode

datatype handle = Destination | Node nat

datatype automation = LinearRamp jsnum jsnum | ExponentialRamp jsnum jsnum

datatype periodic_wave = PeriodicWave "jsnum list" "jsnum list" bool

record anode =
  kind :: node_kind
  n_type :: string
  n_wave :: "periodic_wave option option"
  n_frequency :: jsval
  n_gain :: jsval
  n_Q :: jsval
  frequency_events :: "automation list"
  gain_events :: "automation list"
  outs :: "handle list"
  starts :: nat

text \<open>The configuration object of a synthesizer (\<open>defaultSynthConf\<close> and its like).\<close>

record conf =
  conf_gain :: jsval
  conf_fadeTime :: jsval
  conf_type :: string

text \<open>
  Configuration objects are shared by reference, so they live in a store \<open>confs\<close>
  and a synthesizer holds an address. Address 0 holds the module-level
  \<open>defaultSynthConf\<close>.
\<close>

record world =
  confs :: "nat \<Rightarrow> conf"
  nodes :: "nat \<Rightarrow> anode"
  nextNode :: nat
  currentTime :: jsnum

definition defaultSynthConf :: nat where
  "defaultSynthConf = 0"

definition upd_node :: "nat \<Rightarrow> (anode \<Rightarrow> anode) \<Rightarrow> world \<Rightarrow> world" where
  "upd_node h f w = w\<lparr>nodes := (nodes w)(h := f (nodes w h))\<rparr>"

definition new_node :: "anode \<Rightarrow> world \<Rightarrow> nat \<times> world" where
  "new_node nd w = (nextNode w, w\<lparr>nodes := (nodes w)(nextNode w := nd), nextNode := nextNode w + 1\<rparr>)"

definition createGain :: "world \<Rightarrow> nat \<times> world" where
  "createGain w = new_node
     \<lparr>kind = GainNode, n_type = [], n_wave = None, n_frequency = Undefined,
      n_gain = Number (Fin 1), n_Q = Undefined, frequency_events = [], gain_events = [],
      outs = [], starts = 0\<rparr> w"

definition createOscillator :: "world \<Rightarrow> nat \<times> world" where
  "createOscillator w = new_node
     \<lparr>kind = OscillatorNode, n_type = ''sine'', n_wave = None, n_frequency = Number (Fin 440),
      n_gain = Undefined, n_Q = Undefined, frequency_events = [], gain_events = [],
      outs = [], starts = 0\<rparr> w"

definition createBiquadFilter :: "world \<Rightarrow> nat \<times> world" where
  "createBiquadFilter w = new_node
     \<lparr>kind = BiquadFilterNode, n_type = ''lowpass'', n_wave = None, n_frequency = Number (Fin 350),
      n_gain = Number (Fin 0), n_Q = Number (Fin 1), frequency_events = [], gain_events = [],
      outs = [], starts = 0\<rparr> w"

text \<open>\<open>node.connect(destination)\<close>\<close>

definition connect :: "nat \<Rightarrow> handle \<Rightarrow> world \<Rightarrow> world" where
  "connect h d w = upd_node h (\<lambda>nd. nd\<lparr>outs := outs nd @ [d]\<rparr>) w"

text \<open>\<open>node.start()\<close>\<close>

definition start :: "nat \<Rightarrow> world \<Rightarrow> world" where
  "start h w = upd_node h (\<lambda>nd. nd\<lparr>starts := starts nd + 1\<rparr>) w"

section \<open>Filters.js\<close>

record Filter =
  f_type :: string
  f_name :: string
  frequency :: jsval
  defaultFrequency :: jsval
  f_gain :: jsval
  maxGain :: jsnum
  types :: "string list"
  q :: jsval
  biquadFilter :: nat

definition FilterTypes :: "string list" where
  "FilterTypes = [''lowpass'', ''highpass'', ''bandpass'', ''lowshelf'', ''highshelf'',
     ''peaking'', ''notch'', ''allpass'']"

text \<open>\<open>initBiquadFilter\<close>: creates the node and pushes type, frequency, Q and gain to it.\<close>

definition initBiquadFilter :: "Filter \<times> world \<Rightarrow> Filter \<times> world" where
  "initBiquadFilter fw = (case fw of (f, w) \<Rightarrow>
     (case createBiquadFilter w of (b, w1) \<Rightarrow>
        (f\<lparr>biquadFilter := b\<rparr>,
         upd_node b (\<lambda>nd. nd\<lparr>n_gain := f_gain f\<rparr>)
           (upd_node b (\<lambda>nd. nd\<lparr>n_Q := q f\<rparr>)
             (upd_node b (\<lambda>nd. nd\<lparr>n_frequency := frequency f\<rparr>)
               (upd_node b (\<lambda>nd. nd\<lparr>n_type := f_type f\<rparr>) w1))))))"

text \<open>
  \<open>new Filter(type, frequency, gain, q)\<close>. The field \<open>biquadFilter\<close> has no value
  before \<open>initBiquadFilter\<close> assigns it; the record holds 0 until then.
\<close>

definition Filter_new :: "string \<Rightarrow> jsval \<Rightarrow> jsval \<Rightarrow> jsval \<Rightarrow> world \<Rightarrow> Filter \<times> world" where
  "Filter_new ty fr g qv w = initBiquadFilter
     (\<lparr>f_type = ty, f_name = ty, frequency = fr, defaultFrequency = fr, f_gain = g,
       maxGain = Fin 100, types = FilterTypes, q = qv, biquadFilter = 0\<rparr>, w)"

text \<open>\<open>Filter.connect(destination)\<close>\<close>

definition Filter_connect :: "handle \<Rightarrow> Filter \<times> world \<Rightarrow> Filter \<times> world" where
  "Filter_connect d fw = (case fw of (f, w) \<Rightarrow> (f, connect (biquadFilter f) d w))"

text \<open>\<open>updateType(value)\<close>; \<open>None\<close> is a call without a value, the empty string is falsy.\<close>

definition updateType :: "string option \<Rightarrow> Filter \<times> world \<Rightarrow> Filter \<times> world" where
  "updateType v fw = (case fw of (f, w) \<Rightarrow>
     (let f1 = (case v of None \<Rightarrow> f | Some s \<Rightarrow> if s \<noteq> [] then f\<lparr>f_type := s\<rparr> else f)
      in (f1, upd_node (biquadFilter f1) (\<lambda>nd. nd\<lparr>n_type := f_type f1\<rparr>) w)))"

text \<open>\<open>updateGain(value)\<close>; a call without a value passes \<open>Undefined\<close>.\<close>

definition updateGain :: "jsval \<Rightarrow> Filter \<times> world \<Rightarrow> Filter \<times> world" where
  "updateGain v fw = (case fw of (f, w) \<Rightarrow>
     (let f1 = (if truthy v
                then f\<lparr>f_gain := (if jsgt (toNumber v) (maxGain f) then Number (maxGain f) else v)\<rparr>
                else f)
      in (f1, upd_node (biquadFilter f1) (\<lambda>nd. nd\<lparr>n_gain := f_gain f1\<rparr>) w)))"

definition updateFrequency :: "jsval \<Rightarrow> Filter \<times> world \<Rightarrow> Filter \<times> world" where
  "updateFrequency v fw = (case fw of (f, w) \<Rightarrow>
     (let f1 = (if truthy v then f\<lparr>frequency := v\<rparr> else f)
      in (f1, upd_node (biquadFilter f1) (\<lambda>nd. nd\<lparr>n_frequency := frequency f1\<rparr>) w)))"

definition updateQ :: "jsval \<Rightarrow> Filter \<times> world \<Rightarrow> Filter \<times> world" where
  "updateQ v fw = (case fw of (f, w) \<Rightarrow>
     (let f1 = (if truthy v then f\<lparr>q := v\<rparr> else f)
      in (f1, upd_node (biquadFilter f1) (\<lambda>nd. nd\<lparr>n_Q := q f1\<rparr>) w)))"

section \<open>Synthetizers.js\<close>

text \<open>
  An entry of \<open>this.channels\<close>: an object whose properties \<open>gainNode\<close>,
  \<open>oscillator\<close>, \<open>note\<close> (here \<open>c_note\<close>) and \<open>startingPosY\<close> are absent until assigned.
\<close>

record channel =
  gainNode :: "nat option"
  oscillator :: "nat option"
  c_note :: jsval
  startingPosY :: jsval

definition empty_channel :: channel where
  "empty_channel = \<lparr>gainNode = None, oscillator = None, c_note = Undefined, startingPosY = Undefined\<rparr>"

text \<open>
  The parsed MIDI messages, by their \<open>type\<close> string: 'Note ON', 'Note OFF',
  'Channel Pressure (After-touch)', 'Pitch Bend Change', 'Control change', and any other
  type, for which the \<open>switch\<close> has no case. Each carries its channel and its number.
\<close>

datatype message =
    NoteON nat jsnum
  | NoteOFF nat
  | ChannelPressure nat jsnum
  | PitchBendChange nat jsnum
  | ControlChange nat jsnum
  | OtherMessage

datatype synth_class =
  SubstractiveSynthetizer | CustomSubstractiveSynthetizer | FunctionSubstractiveSynthetizer

text \<open>
  The fields of a synthesizer object. \<open>filter_obj\<close> is \<open>this.filter\<close>; the fields
  from \<open>periodicWave\<close> on are assigned by the custom classes only.
\<close>

record synth =
  cls :: synth_class
  name :: string
  configuration :: nat
  channels :: "nat \<Rightarrow> channel option"
  s_type :: string
  filter_obj :: "Filter option"
  message :: "message option"
  periodicWave :: "periodic_wave option"
  sin_arr :: "jsnum list option"
  cosin :: "jsnum list option"
  custom :: bool
  amplitude :: jsval
  funct :: "(nat \<Rightarrow> jsnum) option"

datatype error = TypeError

text \<open>
  The outcome of a call: it returns, or it throws; in both cases the state is the one
  the call has reached, since what was assigned before a throw stays assigned.
\<close>

datatype 'a result = Returns 'a | Throws error 'a

fun state_of :: "'a result \<Rightarrow> 'a" where
  "state_of (Returns x) = x"
| "state_of (Throws e x) = x"

text \<open>
  The constructor of \<open>SubstractiveSynthetizer\<close>. The configuration is an address
  (\<open>None\<close>: the argument is omitted and \<open>defaultSynthConf\<close> is taken). The
  \<open>filter\<close> argument is not assigned to any field here.
\<close>

definition SubstractiveSynthetizer_new ::
  "string \<Rightarrow> Filter option \<Rightarrow> nat option \<Rightarrow> world \<Rightarrow> synth \<times> world" where
  "SubstractiveSynthetizer_new nm filt config w =
     (let c = (case config of None \<Rightarrow> defaultSynthConf | Some r \<Rightarrow> r);
          w1 = w\<lparr>confs := (confs w)(c := (confs w c)\<lparr>conf_gain := js_or (conf_gain (confs w c)) (Number (Fin 0))\<rparr>)\<rparr>
      in (\<lparr>cls = SubstractiveSynthetizer, name = nm, configuration = c, channels = (\<lambda>ch. None),
           s_type = ''classic'', filter_obj = None, message = None, periodicWave = None,
           sin_arr = None, cosin = None, custom = False, amplitude = Undefined, funct = None\<rparr>, w1))"

text \<open>
  The constructor of \<open>CustomSubstractiveSynthetizer\<close>; \<open>compatibleBrowser\<close> is
  \<open>MIDIController.compatibleBrowser\<close>, a flag of js/MIDI.js.
\<close>

definition CustomSubstractiveSynthetizer_new ::
  "bool \<Rightarrow> string \<Rightarrow> Filter option \<Rightarrow> nat option \<Rightarrow> jsnum list \<Rightarrow> jsnum list \<Rightarrow> bool option
     \<Rightarrow> world \<Rightarrow> synth \<times> world" where
  "CustomSubstractiveSynthetizer_new compatibleBrowser nm filt config sn cs disableNormalization w =
     (case SubstractiveSynthetizer_new nm filt config w of (s, w1) \<Rightarrow>
        (s\<lparr>cls := CustomSubstractiveSynthetizer,
           periodicWave :=
             (if compatibleBrowser
              then Some (PeriodicWave sn cs (case disableNormalization of None \<Rightarrow> False | Some b \<Rightarrow> b))
              else None),
           sin_arr := Some sn,
           cosin := Some cs,
           custom := True,
           amplitude := Number (if truthy_num (Math_max sn) then Math_max sn
                                else jsmul (Math_min sn) (Fin (- 1))),
           s_type := ''custom'',
           filter_obj := filt\<rparr>, w1))"

text \<open>The loop \<open>for (let i = 1; i < numSamples; i++) sin.push(funct(i))\<close>.\<close>

function sin_loop :: "(nat \<Rightarrow> jsnum) \<Rightarrow> nat \<Rightarrow> nat \<Rightarrow> jsnum list \<Rightarrow> jsnum list" where
  "sin_loop f numSamples i sn =
     (if i < numSamples then sin_loop f numSamples (i + 1) (sn @ [f i]) else sn)"
  by pat_completeness auto
termination
  by (relation "measure (\<lambda>(f, numSamples, i, sn). numSamples - i)") auto

declare sin_loop.simps [simp del]

text \<open>
  The constructor of \<open>FunctionSubstractiveSynthetizer\<close>; \<open>numSamples\<close> defaults to
  12. \<open>new Int8Array(numSamples)\<close> is an array of \<open>numSamples\<close> zeros.
\<close>

definition FunctionSubstractiveSynthetizer_new ::
  "bool \<Rightarrow> string \<Rightarrow> Filter option \<Rightarrow> nat option \<Rightarrow> (nat \<Rightarrow> jsnum) \<Rightarrow> bool option \<Rightarrow> nat option
     \<Rightarrow> world \<Rightarrow> synth \<times> world" where
  "FunctionSubstractiveSynthetizer_new compatibleBrowser nm filt config f disableNormalization numSamples w =
     (let n = (case numSamples of None \<Rightarrow> 12 | Some k \<Rightarrow> k);
          cs = replicate n (Fin 0);
          sn = sin_loop f n 1 [Fin 0]
      in (case CustomSubstractiveSynthetizer_new compatibleBrowser nm filt config sn cs disableNormalization w of
            (s, w1) \<Rightarrow>
              (s\<lparr>cls := FunctionSubstractiveSynthetizer, funct := Some f, s_type := ''function''\<rparr>, w1)))"

text \<open>
  \<open>SubstractiveSynthetizer.initOscillator(note, channel)\<close>. The first argument is
  \<open>MIDIController.noteToFrequency\<close>, a function of js/MIDI.js.
\<close>

definition initOscillator ::
  "(jsnum \<Rightarrow> jsnum) \<Rightarrow> jsnum \<Rightarrow> nat \<Rightarrow> synth \<times> world \<Rightarrow> (synth \<times> world) result" where
  "initOscillator noteToFreq nt ch sw = (case sw of (s, w) \<Rightarrow>
     (let freq = noteToFreq nt;
          c0 = (case channels s ch of Some c \<Rightarrow> c | None \<Rightarrow> empty_channel);
          s0 = s\<lparr>channels := (channels s)(ch \<mapsto> c0)\<rparr>
      in
      (case (case gainNode c0 of
               Some g \<Rightarrow> Returns (g, c0, s0, w)
             | None \<Rightarrow>
                (case createGain w of (g, w1) \<Rightarrow>
                  (let w2 = upd_node g (\<lambda>nd. nd\<lparr>n_gain := Number (Fin 0)\<rparr>) w1 in
                   (case filter_obj s0 of
                      None \<Rightarrow> Throws TypeError (g, c0, s0, w2)
                    | Some f \<Rightarrow>
                       (let w3 = connect g (Node (biquadFilter f)) w2;
                            c1 = c0\<lparr>gainNode := Some g\<rparr>
                        in Returns (g, c1, s0\<lparr>channels := (channels s0)(ch \<mapsto> c1)\<rparr>, w3)))))) of
         Throws e (g, c1, s1, w1) \<Rightarrow> Throws e (s1, w1)
       | Returns (g, c1, s1, w1) \<Rightarrow>
          (case (case oscillator c1 of
                   Some osc \<Rightarrow> Returns (osc, s1, w1)
                 | None \<Rightarrow>
                    (case createOscillator w1 of (osc, w2) \<Rightarrow>
                      (let w3 = upd_node osc (\<lambda>nd. nd\<lparr>n_type := conf_type (confs w2 (configuration s1))\<rparr>) w2;
                           s2 = s1\<lparr>channels := (channels s1)(ch \<mapsto> c1\<lparr>oscillator := Some osc\<rparr>)\<rparr>;
                           w4 = connect osc (Node g) w3
                       in (case filter_obj s2 of
                             None \<Rightarrow> Throws TypeError (osc, s2, w4)
                           | Some f \<Rightarrow>
                              (case Filter_connect Destination (f, w4) of (f1, w5) \<Rightarrow>
                                 Returns (osc, s2\<lparr>filter_obj := Some f1\<rparr>, w5)))))) of
             Throws e (osc, s2, w2) \<Rightarrow> Throws e (s2, w2)
           | Returns (osc, s2, w2) \<Rightarrow>
               Returns (s2, start osc (upd_node osc (\<lambda>nd. nd\<lparr>n_frequency := Number freq\<rparr>) w2))))))"

text \<open>
  \<open>CustomSubstractiveSynthetizer.initOscillator(note, channel)\<close>, the override: the
  gain node is connected before its gain is set, and the oscillator gets the periodic
  wave instead of a type.
\<close>

definition initOscillator_custom ::
  "(jsnum \<Rightarrow> jsnum) \<Rightarrow> jsnum \<Rightarrow> nat \<Rightarrow> synth \<times> world \<Rightarrow> (synth \<times> world) result" where
  "initOscillator_custom noteToFreq nt ch sw = (case sw of (s, w) \<Rightarrow>
     (let freq = noteToFreq nt;
          c0 = (case channels s ch of Some c \<Rightarrow> c | None \<Rightarrow> empty_channel);
          s0 = s\<lparr>channels := (channels s)(ch \<mapsto> c0)\<rparr>
      in
      (case (case gainNode c0 of
               Some g \<Rightarrow> Returns (g, c0, s0, w)
             | None \<Rightarrow>
                (case createGain w of (g, w1) \<Rightarrow>
                   (case filter_obj s0 of
                      None \<Rightarrow> Throws TypeError (g, c0, s0, w1)
                    | Some f \<Rightarrow>
                       (let w2 = connect g (Node (biquadFilter f)) w1;
                            w3 = upd_node g (\<lambda>nd. nd\<lparr>n_gain := Number (Fin 0)\<rparr>) w2;
                            c1 = c0\<lparr>gainNode := Some g\<rparr>
                        in Returns (g, c1, s0\<lparr>channels := (channels s0)(ch \<mapsto> c1)\<rparr>, w3))))) of
         Throws e (g, c1, s1, w1) \<Rightarrow> Throws e (s1, w1)
       | Returns (g, c1, s1, w1) \<Rightarrow>
          (case (case oscillator c1 of
                   Some osc \<Rightarrow> Returns (osc, s1, w1)
                 | None \<Rightarrow>
                    (case createOscillator w1 of (osc, w2) \<Rightarrow>
                      (let w3 = upd_node osc (\<lambda>nd. nd\<lparr>n_wave := Some (periodicWave s1)\<rparr>) w2;
                           w4 = connect osc (Node g) w3;
                           s2 = s1\<lparr>channels := (channels s1)(ch \<mapsto> c1\<lparr>oscillator := Some osc\<rparr>)\<rparr>
                       in (case filter_obj s2 of
                             None \<Rightarrow> Throws TypeError (osc, s2, w4)
                           | Some f \<Rightarrow>
                              (case Filter_connect Destination (f, w4) of (f1, w5) \<Rightarrow>
                                 Returns (osc, s2\<lparr>filter_obj := Some f1\<rparr>, w5)))))) of
             Throws e (osc, s2, w2) \<Rightarrow> Throws e (s2, w2)
           | Returns (osc, s2, w2) \<Rightarrow>
               Returns (s2, start osc (upd_node osc (\<lambda>nd. nd\<lparr>n_frequency := Number freq\<rparr>) w2))))))"

text \<open>\<open>this.initOscillator\<close>: the method of the object's class.\<close>

definition this_initOscillator ::
  "(jsnum \<Rightarrow> jsnum) \<Rightarrow> jsnum \<Rightarrow> nat \<Rightarrow> synth \<times> world \<Rightarrow> (synth \<times> world) result" where
  "this_initOscillator noteToFreq nt ch sw =
     (if cls (fst sw) = SubstractiveSynthetizer then initOscillator noteToFreq nt ch sw
      else initOscillator_custom noteToFreq nt ch sw)"

text \<open>
  \<open>handleMessage(message)\<close>, inherited by the three classes. Reading a property of
  an absent channel entry, of an absent node or of an absent filter throws a TypeError.
\<close>

definition handleMessage ::
  "(jsnum \<Rightarrow> jsnum) \<Rightarrow> message \<Rightarrow> synth \<times> world \<Rightarrow> (synth \<times> world) result" where
  "handleMessage noteToFreq m sw = (case sw of (s, w) \<Rightarrow>
     (case m of
        NoteON ch nt \<Rightarrow>
          (case (if channels s ch = None then this_initOscillator noteToFreq nt ch (s, w)
                 else Returns (s, w)) of
             Throws e sw1 \<Rightarrow> Throws e sw1
           | Returns (s1, w1) \<Rightarrow>
              (let s2 = s1\<lparr>message := Some m\<rparr> in
               (case channels s2 ch of
                  None \<Rightarrow> Throws TypeError (s2, w1)
                | Some c \<Rightarrow>
                   (case oscillator c of
                      None \<Rightarrow> Throws TypeError (s2, w1)
                    | Some osc \<Rightarrow>
                       Returns
                         (s2\<lparr>channels := (channels s2)(ch \<mapsto> c\<lparr>c_note := Number nt\<rparr>)\<rparr>,
                          upd_node osc (\<lambda>nd. nd\<lparr>n_frequency := Number (noteToFreq nt)\<rparr>) w1)))))
      | NoteOFF ch \<Rightarrow>
          (case channels s ch of
             None \<Rightarrow> Throws TypeError (s, w)
           | Some c \<Rightarrow>
              (let c1 = c\<lparr>startingPosY := Null\<rparr>;
                   s1 = s\<lparr>channels := (channels s)(ch \<mapsto> c1)\<rparr>
               in (case filter_obj s1 of
                     None \<Rightarrow> Throws TypeError (s1, w)
                   | Some f \<Rightarrow>
                      (case updateFrequency (defaultFrequency f) (f, w) of (f1, w1) \<Rightarrow>
                        (let s2 = s1\<lparr>filter_obj := Some f1\<rparr> in
                         (case gainNode c1 of
                            None \<Rightarrow> Throws TypeError (s2, w1)
                          | Some g \<Rightarrow>
                             Returns
                               (s2,
                                upd_node g (\<lambda>nd. nd\<lparr>gain_events := gain_events nd @
                                  [LinearRamp (Fin 0)
                                     (jsadd (currentTime w1)
                                        (toNumber (conf_fadeTime (confs w1 (configuration s2)))))]\<rparr>) w1)))))))
      | ChannelPressure ch pressure \<Rightarrow>
          (case channels s ch of
             None \<Rightarrow> Throws TypeError (s, w)
           | Some c \<Rightarrow>
              (case gainNode c of
                 None \<Rightarrow> Throws TypeError (s, w)
               | Some g \<Rightarrow>
                  Returns
                    (s,
                     upd_node g (\<lambda>nd. nd\<lparr>gain_events := gain_events nd @
                       [LinearRamp
                          (jsdiv pressure
                             (jsadd (Fin 128)
                                (toNumber (js_or (conf_gain (confs w (configuration s))) (Number (Fin 0))))))
                          (jsadd (currentTime w) (Fin (1 / 10)))]\<rparr>) w)))
      | PitchBendChange ch pitchBend \<Rightarrow>
          (case channels s ch of
             None \<Rightarrow> Returns (s, w)
           | Some c \<Rightarrow>
              (if truthy (c_note c)
               then (let noteModulation = jsadd (toNumber (c_note c)) pitchBend in
                     (if \<not> isNaN noteModulation
                      then (case oscillator c of
                              None \<Rightarrow> Throws TypeError (s, w)
                            | Some osc \<Rightarrow>
                               Returns
                                 (s,
                                  upd_node osc (\<lambda>nd. nd\<lparr>frequency_events := frequency_events nd @
                                    [ExponentialRamp (noteToFreq noteModulation)
                                       (jsadd (currentTime w) (Fin (1 / 10)))]\<rparr>) w))
                      else Returns (s, w)))
               else Returns (s, w)))
      | ControlChange ch controlChange \<Rightarrow>
          (case channels s ch of
             None \<Rightarrow> Returns (s, w)
           | Some c \<Rightarrow>
              (if \<not> truthy (startingPosY c)
               then Returns (s\<lparr>channels := (channels s)(ch \<mapsto> c\<lparr>startingPosY := Number controlChange\<rparr>)\<rparr>, w)
               else (let frequencyVariation = jssub controlChange (toNumber (startingPosY c)) in
                     (case filter_obj s of
                        None \<Rightarrow> Throws TypeError (s, w)
                      | Some f \<Rightarrow>
                         (case updateFrequency
                                 (Number (jsadd (toNumber (defaultFrequency f))
                                            (jsmul frequencyVariation (Fin 10)))) (f, w) of
                            (f1, w1) \<Rightarrow> Returns (s\<lparr>filter_obj := Some f1\<rparr>, w1))))))
      | OtherMessage \<Rightarrow> Returns (s, w)))"

text \<open>
  Events dispatched one after the other, each at its own reading of the audio clock.
  A dispatch that throws ends that dispatch only: the next event finds the state the
  throw has left.
\<close>

fun dispatch_all ::
  "(jsnum \<Rightarrow> jsnum) \<Rightarrow> (jsnum \<times> message) list \<Rightarrow> synth \<times> world \<Rightarrow> synth \<times> world" where
  "dispatch_all noteToFreq [] sw = sw"
| "dispatch_all noteToFreq ((t, m) # ms) sw =
     dispatch_all noteToFreq ms
       (state_of (handleMessage noteToFreq m (fst sw, (snd sw)\<lparr>currentTime := t\<rparr>)))"

text \<open>
  The state of the module when it is loaded: \<open>defaultSynthConf\<close> at its address, no
  audio node created yet.
\<close>

definition initial_world :: world where
  "initial_world =
     \<lparr>confs = (\<lambda>a. \<lparr>conf_gain = Number (Fin 0), conf_fadeTime = Number (Fin (2 / 10)), conf_type = ''sine''\<rparr>),
      nodes = (\<lambda>h. \<lparr>kind = GainNode, n_type = [], n_wave = None, n_frequency = Undefined,
                    n_gain = Undefined, n_Q = Undefined, frequency_events = [], gain_events = [],
                    outs = [], starts = 0\<rparr>),
      nextNode = 0,
      currentTime = Fin 0\<rparr>"

text \<open>The channel a message is addressed to (\<open>message.channel\<close>).\<close>

fun message_channel :: "message \<Rightarrow> nat option" where
  "message_channel (NoteON ch nt) = Some ch"
| "message_channel (NoteOFF ch) = Some ch"
| "message_channel (ChannelPressure ch p) = Some ch"
| "message_channel (PitchBendChange ch b) = Some ch"
| "message_channel (ControlChange ch v) = Some ch"
| "message_channel OtherMessage = None"

section \<open>The vocabulary of the specification\<close>

text \<open>
  A channel is Silent when \<open>this.channels\<close> has no entry for it, and Sounding when
  its entry holds a gain node and an oscillator (its voice).
\<close>

definition Silent :: "synth \<Rightarrow> nat \<Rightarrow> bool" where
  "Silent s ch = (channels s ch = None)"

definition Sounding :: "synth \<Rightarrow> nat \<Rightarrow> bool" where
  "Sounding s ch = (case channels s ch of None \<Rightarrow> False
                    | Some c \<Rightarrow> gainNode c \<noteq> None \<and> oscillator c \<noteq> None)"

text \<open>
  The amplitude of a waveform as the specification words it: the maximum of the sine
  coefficients, unless all of them are non-positive, and then the negated minimum.
\<close>

definition spec_amplitude :: "real list \<Rightarrow> real" where
  "spec_amplitude xs = (if (\<forall>x\<in>set xs. x \<le> 0) then - Min (set xs) else Max (set xs))"

text \<open>
  Modelled from the spec: \<open>MIDIController.noteToFrequency\<close>, defined in js/MIDI.js,
  which is not among the source files. The specification gives it on finite notes as
  Hz = 440 * 2^((note - 69) / 12); on the infinities and on NaN the value is what this
  formula gives in JavaScript arithmetic.
\<close>

definition noteToFrequency :: "jsnum \<Rightarrow> jsnum" where
  "noteToFrequency n =
     (case n of Fin x \<Rightarrow> Fin (440 * 2 powr ((x - 69) / 12)) | PInf \<Rightarrow> PInf
      | NInf \<Rightarrow> Fin 0 | NaN \<Rightarrow> NaN)"

section \<open>Concrete objects\<close>

text \<open>
  A lowpass filter of frequency \<open>fr\<close>, gain \<open>g\<close> and Q 1 created first in a newly
  loaded module, and a custom synthesizer constructed with that filter (gain 0) and no
  configuration argument.
\<close>

definition example_filter :: "jsval \<Rightarrow> jsval \<Rightarrow> Filter \<times> world" where
  "example_filter fr g = Filter_new ''lowpass'' fr g (Number (Fin 1)) initial_world"

definition example_synth :: "jsval \<Rightarrow> synth \<times> world" where
  "example_synth fr = (case example_filter fr (Number (Fin 0)) of (f, w) \<Rightarrow>
     CustomSubstractiveSynthetizer_new True ''synth'' (Some f) None [Fin 0, Fin 1] [Fin 0, Fin 0] None w)"

text \<open>
  A synthesizer of the base class, constructed with the same filter (frequency 1000,
  gain 0) and no configuration argument.
\<close>

definition example_classic :: "synth \<times> world" where
  "example_classic = (case example_filter (Number (Fin 1000)) (Number (Fin 0)) of (f, w) \<Rightarrow>
     SubstractiveSynthetizer_new ''synth'' (Some f) None w)"

text \<open>The example synthesizer after a Note ON of note 60 on channel 1, at time 0.\<close>

definition example_sounding :: "synth \<times> world" where
  "example_sounding = dispatch_all noteToFrequency [(Fin 0, NoteON 1 (Fin 60))]
     (example_synth (Number (Fin 1000)))"

text \<open>A world in which the caller has made a configuration object without a gain, at address 5.\<close>

definition example_conf_world :: world where
  "example_conf_world = initial_world\<lparr>confs := (confs initial_world)
     (5 := \<lparr>conf_gain = Undefined, conf_fadeTime = Number (Fin (1 / 2)), conf_type = ''square''\<rparr>)\<rparr>"

section \<open>Auxiliary facts\<close>

lemmas node_defs = createGain_def createOscillator_def new_node_def upd_node_def connect_def
  start_def Filter_connect_def

lemmas synth_defs = handleMessage_def this_initOscillator_def initOscillator_def
  initOscillator_custom_def empty_channel_def updateFrequency_def Let_def

lemma example_filter_eval:
  "example_filter fr g =
     (\<lparr>f_type = ''lowpass'', f_name = ''lowpass'', frequency = fr, defaultFrequency = fr,
       f_gain = g, maxGain = Fin 100, types = FilterTypes, q = Number (Fin 1),
       biquadFilter = 0\<rparr>,
      initial_world\<lparr>nodes := (nodes initial_world)(0 :=
         \<lparr>kind = BiquadFilterNode, n_type = ''lowpass'', n_wave = None, n_frequency = fr,
          n_gain = g, n_Q = Number (Fin 1), frequency_events = [], gain_events = [],
          outs = [], starts = 0\<rparr>), nextNode := 1\<rparr>)"
  by (simp add: example_filter_def Filter_new_def initBiquadFilter_def createBiquadFilter_def
      new_node_def upd_node_def initial_world_def)

lemmas example_defs = example_synth_def example_filter_eval CustomSubstractiveSynthetizer_new_def
  SubstractiveSynthetizer_new_def initial_world_def defaultSynthConf_def js_or_def
  Math_max_def Math_min_def max2_def min2_def

lemma example_synth_facts:
  "channels (fst (example_synth fr)) ch = None"
  "filter_obj (fst (example_synth fr)) = Some (fst (example_filter fr (Number (Fin 0))))"
  "biquadFilter (fst (example_filter fr g)) = 0"
  "nextNode (snd (example_synth fr)) = 1"
  "outs (nodes (snd (example_synth fr)) 0) = []"
  by (simp_all add: example_defs)

lemma example_sounding_facts:
  "channels (fst example_sounding) 1 =
     Some \<lparr>gainNode = Some 1, oscillator = Some 2, c_note = Number (Fin 60), startingPosY = Undefined\<rparr>"
  "currentTime (snd example_sounding) = Fin 0"
  "frequency_events (nodes (snd example_sounding) 2) = []"
  "nextNode (snd example_sounding) = 3"
  by (simp_all add: example_sounding_def synth_defs example_defs node_defs)

lemma sin_loop_eq: "sin_loop f n i sn = sn @ map f [i..<n]"
proof (induction f n i sn rule: sin_loop.induct)
  case (1 f n i sn)
  show ?case
  proof (cases "i < n")
    case True
    then have "[i..<n] = i # [i + 1..<n]" by (simp add: upt_conv_Cons)
    with True "1" show ?thesis by (simp add: sin_loop.simps [of f n i sn])
  next
    case False
    then show ?thesis by (simp add: sin_loop.simps [of f n i sn])
  qed
qed

lemma foldl_max2_Fin: "foldl max2 (Fin a) (map Fin xs) = Fin (fold max xs a)"
  by (induction xs arbitrary: a) (auto simp: max2_def max_def)

lemma foldl_min2_Fin: "foldl min2 (Fin a) (map Fin xs) = Fin (fold min xs a)"
  by (induction xs arbitrary: a) (auto simp: min2_def min_def)

lemma Math_max_Fin: "Math_max (map Fin (x # xs)) = Fin (Max (set (x # xs)))"
  by (simp add: Math_max_def max2_def foldl_max2_Fin Max.set_eq_fold del: set_simps)

lemma Math_min_Fin: "Math_min (map Fin (x # xs)) = Fin (Min (set (x # xs)))"
  by (simp add: Math_min_def min2_def foldl_min2_Fin Min.set_eq_fold del: set_simps)

text \<open>
  The expression \<open>Math.max(...sin) || (Math.min(...sin) * -1)\<close> on real coefficients
  that start with 0 is the amplitude of the specification.
\<close>

lemma amplitude_Fin:
  "(if truthy_num (Math_max (map Fin (0 # xs))) then Math_max (map Fin (0 # xs))
    else jsmul (Math_min (map Fin (0 # xs))) (Fin (- 1))) = Fin (spec_amplitude (0 # xs))"
proof -
  have "Max (set (0 # xs)) \<le> 0 \<longleftrightarrow> (\<forall>x\<in>set (0 # xs). x \<le> 0)"
    by (rule Max_le_iff) auto
  moreover have "0 \<le> Max (set (0 # xs))"
    by (rule Max_ge) auto
  ultimately have "Max (set (0 # xs)) = 0 \<longleftrightarrow> (\<forall>x\<in>set (0 # xs). x \<le> 0)"
    by linarith
  then show ?thesis
    unfolding Math_max_Fin Math_min_Fin spec_amplitude_def by (simp del: set_simps)
qed

lemma Function_new_fields:
  assumes "FunctionSubstractiveSynthetizer_new cb nm filt config f dn (Some N) w = (s, w')"
  shows "sin_arr s = Some (sin_loop f N 1 [Fin 0])"
    and "cosin s = Some (replicate N (Fin 0))"
    and "amplitude s = Number (if truthy_num (Math_max (sin_loop f N 1 [Fin 0]))
                               then Math_max (sin_loop f N 1 [Fin 0])
                               else jsmul (Math_min (sin_loop f N 1 [Fin 0])) (Fin (- 1)))"
  using assms
  by (auto simp add: FunctionSubstractiveSynthetizer_new_def CustomSubstractiveSynthetizer_new_def
      SubstractiveSynthetizer_new_def Let_def)

section \<open>The note-to-frequency mapping\<close>

text \<open>
  Claim C9. The note-to-frequency mapping is the function Hz = 440 * 2^((note - 69) / 12):
  note 69 gives 440 Hz, twelve notes up double the frequency at every note, and a finite
  note gives a finite frequency, never NaN. (Over exact reals: the rounding of doubles is
  not modelled.)
\<close>

theorem noteToFrequency_equal_tempered:
  "noteToFrequency (Fin 69) = Fin 440 \<and>
   (\<forall>x. noteToFrequency (Fin x) = Fin (440 * 2 powr ((x - 69) / 12))) \<and>
   (\<forall>x. noteToFrequency (Fin (x + 12)) = jsmul (Fin 2) (noteToFrequency (Fin x))) \<and>
   (\<forall>x. isFinite (noteToFrequency (Fin x)) \<and> \<not> isNaN (noteToFrequency (Fin x)))"
proof -
  have oct: "2 powr ((x + 12 - 69) / 12) = 2 * 2 powr ((x - 69) / 12)" for x :: real
  proof -
    have "(x + 12 - 69) / 12 = 1 + (x - 69) / 12" by (simp add: field_simps)
    then have "2 powr ((x + 12 - 69) / 12) = (2::real) powr (1 + (x - 69) / 12)" by (rule arg_cong)
    also have "\<dots> = 2 powr 1 * 2 powr ((x - 69) / 12)" by (rule powr_add)
    finally show ?thesis by simp
  qed
  show ?thesis using oct by (simp add: noteToFrequency_def)
qed

section \<open>The filter\<close>

text \<open>
  A number other than 0 and NaN is stored by \<open>updateGain\<close>, capped at the maximum of
  100, and pushed to the node.
\<close>

lemma updateGain_number:
  assumes "x \<noteq> 0" and "maxGain f = Fin 100" and "updateGain (Number (Fin x)) (f, w) = (f1, w1)"
  shows "f_gain f1 = Number (Fin (min x 100)) \<and>
         n_gain (nodes w1 (biquadFilter f1)) = Number (Fin (min x 100)) \<and>
         biquadFilter f1 = biquadFilter f"
  using assms by (auto simp: updateGain_def upd_node_def jsgt_def min_def)

text \<open>Without a value, \<open>updateGain\<close> keeps the stored gain and pushes it to the node again.\<close>

lemma updateGain_no_value:
  assumes "updateGain Undefined (f, w) = (f1, w1)"
  shows "f1 = f \<and> n_gain (nodes w1 (biquadFilter f)) = f_gain f"
  using assms by (auto simp: updateGain_def upd_node_def)

text \<open>\<open>updateGain(150)\<close> and then \<open>updateGain()\<close>: 100 is stored and applied both times.\<close>

lemma updateGain_150_then_no_value:
  "(case updateGain (Number (Fin 150)) (example_filter (Number (Fin 1000)) (Number (Fin 50))) of
      (f1, w1) \<Rightarrow> (f_gain f1, n_gain (nodes w1 (biquadFilter f1)),
         (case updateGain Undefined (f1, w1) of
            (f2, w2) \<Rightarrow> (f_gain f2, n_gain (nodes w2 (biquadFilter f2)))))) =
   (Number (Fin 100), Number (Fin 100), Number (Fin 100), Number (Fin 100))"
  by (simp add: example_filter_eval updateGain_def upd_node_def jsgt_def)

text \<open>
  Claim C8 says that \<open>updateGain(v)\<close> stores min(v, 100) for every value v. At v = 0
  the test \<open>if (value)\<close> takes the value for absent: a filter whose gain is 50 keeps 50,
  stored and on the node, where min(0, 100) = 0 is claimed.
\<close>

theorem updateGain_zero_ignored:
  "(case updateGain (Number (Fin 0)) (example_filter (Number (Fin 1000)) (Number (Fin 50))) of
      (f, w) \<Rightarrow> (f_gain f, n_gain (nodes w (biquadFilter f)))) = (Number (Fin 50), Number (Fin 50))"
  by (simp add: example_filter_eval updateGain_def upd_node_def)

section \<open>The constructors\<close>

text \<open>
  Claim C10. A constructor keeps the address of the configuration object it is given,
  not a copy, and writes 0 into that object's gain when the gain is falsy; nothing else
  in the store changes. Without a configuration argument the address is the one of
  \<open>defaultSynthConf\<close>, so all such synthesizers hold, and write to, that one object.
  The two derived constructors treat the configuration as the base constructor does.
\<close>

theorem constructor_shares_configuration:
  assumes "SubstractiveSynthetizer_new nm filt config w = (s, w')"
  shows "configuration s = (case config of None \<Rightarrow> defaultSynthConf | Some r \<Rightarrow> r) \<and>
         w' = w\<lparr>confs := (confs w)(configuration s := (confs w (configuration s))
                 \<lparr>conf_gain := (if truthy (conf_gain (confs w (configuration s)))
                                then conf_gain (confs w (configuration s)) else Number (Fin 0))\<rparr>)\<rparr> \<and>
         (\<forall>a. a \<noteq> configuration s \<longrightarrow> confs w' a = confs w a) \<and>
         configuration (fst (CustomSubstractiveSynthetizer_new cb nm filt config sn cs dn w)) = configuration s \<and>
         snd (CustomSubstractiveSynthetizer_new cb nm filt config sn cs dn w) = w' \<and>
         configuration (fst (FunctionSubstractiveSynthetizer_new cb nm filt config fn dn k w)) = configuration s \<and>
         snd (FunctionSubstractiveSynthetizer_new cb nm filt config fn dn k w) = w'"
  using assms
  by (auto simp: SubstractiveSynthetizer_new_def CustomSubstractiveSynthetizer_new_def
      FunctionSubstractiveSynthetizer_new_def Let_def js_or_def)

text \<open>
  At a configuration object without a gain (address 5) the constructor writes gain 0 into
  that very object; two synthesizers made without a configuration hold the same address.
\<close>

theorem constructor_shares_configuration_witness:
  "configuration (fst (SubstractiveSynthetizer_new ''a'' None (Some 5) example_conf_world)) = 5 \<and>
   conf_gain (confs example_conf_world 5) = Undefined \<and>
   conf_gain (confs (snd (SubstractiveSynthetizer_new ''a'' None (Some 5) example_conf_world)) 5) = Number (Fin 0) \<and>
   configuration (fst (SubstractiveSynthetizer_new ''b'' None None example_conf_world)) = defaultSynthConf \<and>
   configuration (fst (SubstractiveSynthetizer_new ''c'' None None
      (snd (SubstractiveSynthetizer_new ''b'' None None example_conf_world)))) = defaultSynthConf"
  using constructor_shares_configuration [of "''a''" None "Some 5" example_conf_world
      "fst (SubstractiveSynthetizer_new ''a'' None (Some 5) example_conf_world)"
      "snd (SubstractiveSynthetizer_new ''a'' None (Some 5) example_conf_world)"]
  by (simp add: SubstractiveSynthetizer_new_def example_conf_world_def Let_def js_or_def)

section \<open>The waveform builder\<close>

text \<open>
  Claim C7. For a generator \<open>g\<close> and a sample count \<open>N\<close> the constructor of the
  function synthesizer builds the sine coefficients [0, g 1, ..., g (N - 1)] and \<open>N\<close>
  zeros as cosine coefficients; its amplitude is the maximum sine coefficient, unless all
  are non-positive, and then the negated minimum. When the generator gives only negative
  values (and gives at least one: \<open>2 \<le> N\<close>) the amplitude is positive.
\<close>

theorem waveform_builder:
  fixes g :: "nat \<Rightarrow> real"
  assumes "FunctionSubstractiveSynthetizer_new cb nm filt config (\<lambda>i. Fin (g i)) dn (Some N) w = (s, w')"
  shows "sin_arr s = Some (map Fin (0 # map g [1..<N])) \<and>
         cosin s = Some (replicate N (Fin 0)) \<and>
         amplitude s = Number (Fin (spec_amplitude (0 # map g [1..<N]))) \<and>
         (2 \<le> N \<and> (\<forall>i\<in>{1..<N}. g i < 0) \<longrightarrow> 0 < spec_amplitude (0 # map g [1..<N]))"
proof -
  have sn: "sin_loop (\<lambda>i. Fin (g i)) N 1 [Fin 0] = map Fin (0 # map g [1..<N])"
    by (simp add: sin_loop_eq)
  have pos: "0 < spec_amplitude (0 # map g [1..<N])" if "2 \<le> N" and neg: "\<forall>i\<in>{1..<N}. g i < 0"
  proof -
    have all: "\<forall>x\<in>set (0 # map g [1..<N]). x \<le> 0" using neg by auto
    have "g 1 \<in> set (0 # map g [1..<N])" using that(1) by auto
    then have "Min (set (0 # map g [1..<N])) \<le> g 1" by (intro Min_le) auto
    moreover have "g 1 < 0" using neg that(1) by auto
    moreover have "spec_amplitude (0 # map g [1..<N]) = - Min (set (0 # map g [1..<N]))"
      unfolding spec_amplitude_def using all by (rule if_P)
    ultimately show ?thesis by linarith
  qed
  have a: "sin_arr s = Some (map Fin (0 # map g [1..<N]))"
    using Function_new_fields(1)[OF assms] unfolding sn .
  have b: "cosin s = Some (replicate N (Fin 0))"
    using Function_new_fields(2)[OF assms] .
  have c: "amplitude s = Number (Fin (spec_amplitude (0 # map g [1..<N])))"
    using Function_new_fields(3)[OF assms] unfolding sn amplitude_Fin .
  from a b c pos show ?thesis by blast
qed

text \<open>
  The generator \<open>g i = - i\<close> with 4 samples gives the sine coefficients [0, -1, -2, -3]
  and the amplitude 3; the generator \<open>g i = i\<close> gives [0, 1, 2, 3] and the amplitude 3.
\<close>

theorem waveform_builder_witness:
  "sin_arr (fst (FunctionSubstractiveSynthetizer_new True ''f'' None None (\<lambda>i. Fin (- real i)) None (Some 4) initial_world))
     = Some [Fin 0, Fin (- 1), Fin (- 2), Fin (- 3)] \<and>
   cosin (fst (FunctionSubstractiveSynthetizer_new True ''f'' None None (\<lambda>i. Fin (- real i)) None (Some 4) initial_world))
     = Some [Fin 0, Fin 0, Fin 0, Fin 0] \<and>
   amplitude (fst (FunctionSubstractiveSynthetizer_new True ''f'' None None (\<lambda>i. Fin (- real i)) None (Some 4) initial_world))
     = Number (Fin 3) \<and>
   sin_arr (fst (FunctionSubstractiveSynthetizer_new True ''f'' None None (\<lambda>i. Fin (real i)) None (Some 4) initial_world))
     = Some [Fin 0, Fin 1, Fin 2, Fin 3] \<and>
   amplitude (fst (FunctionSubstractiveSynthetizer_new True ''f'' None None (\<lambda>i. Fin (real i)) None (Some 4) initial_world))
     = Number (Fin 3)"
proof -
  have u: "[Suc 0..<4] = [Suc 0, 2, 3]" by (simp add: upt_rec)
  have r: "replicate 4 (Fin 0) = [Fin 0, Fin 0, Fin 0, Fin 0]" by (simp add: eval_nat_numeral)
  have n: "spec_amplitude [0, - 1, - 2, - 3] = 3" by (simp add: spec_amplitude_def)
  have p: "spec_amplitude [0, 1, 2, 3] = 3" by (simp add: spec_amplitude_def)
  show ?thesis
    using waveform_builder [of True "''f''" None None "\<lambda>i. - real i" None 4 initial_world
        "fst (FunctionSubstractiveSynthetizer_new True ''f'' None None (\<lambda>i. Fin (- real i)) None (Some 4) initial_world)"
        "snd (FunctionSubstractiveSynthetizer_new True ''f'' None None (\<lambda>i. Fin (- real i)) None (Some 4) initial_world)"]
      waveform_builder [of True "''f''" None None "\<lambda>i. real i" None 4 initial_world
        "fst (FunctionSubstractiveSynthetizer_new True ''f'' None None (\<lambda>i. Fin (real i)) None (Some 4) initial_world)"
        "snd (FunctionSubstractiveSynthetizer_new True ''f'' None None (\<lambda>i. Fin (real i)) None (Some 4) initial_world)"]
    by (simp add: u r n p)
qed


section \<open>The state machine\<close>

subsection \<open>Note ON\<close>

text \<open>
  On a Silent channel of a synthesizer that has its filter, Note ON returns and leaves a
  voice: a new gain node with gain 0, a new oscillator whose frequency is that of the
  note, the oscillator connected to the gain node, the gain node to the filter's node and
  the filter's node to the destination; the oscillator is started once, the note is
  recorded and the channel is Sounding. This holds for the classes alike.
\<close>

lemma NoteON_silent_with_filter:
  assumes "Silent s ch" and "filter_obj s = Some f" and "biquadFilter f < nextNode w"
  shows "\<exists>s' w' c. handleMessage ntf (NoteON ch nt) (s, w) = Returns (s', w') \<and>
      channels s' ch = Some c \<and> gainNode c = Some (nextNode w) \<and>
      oscillator c = Some (nextNode w + 1) \<and> c_note c = Number nt \<and> Sounding s' ch \<and>
      kind (nodes w' (nextNode w + 1)) = OscillatorNode \<and>
      n_frequency (nodes w' (nextNode w + 1)) = Number (ntf nt) \<and>
      outs (nodes w' (nextNode w + 1)) = [Node (nextNode w)] \<and>
      starts (nodes w' (nextNode w + 1)) = 1 \<and>
      kind (nodes w' (nextNode w)) = GainNode \<and>
      n_gain (nodes w' (nextNode w)) = Number (Fin 0) \<and>
      outs (nodes w' (nextNode w)) = [Node (biquadFilter f)] \<and>
      outs (nodes w' (biquadFilter f)) = outs (nodes w (biquadFilter f)) @ [Destination] \<and>
      nextNode w' = nextNode w + 2"
proof (cases "cls s = SubstractiveSynthetizer")
  case True
  with assms show ?thesis
    by (simp add: handleMessage_def this_initOscillator_def initOscillator_def Silent_def
        Sounding_def empty_channel_def node_defs Let_def)
next
  case False
  with assms show ?thesis
    by (simp add: handleMessage_def this_initOscillator_def initOscillator_custom_def Silent_def
        Sounding_def empty_channel_def node_defs Let_def)
qed

text \<open>The custom example synthesizer, which has its filter from its constructor.\<close>

lemma NoteON_silent_with_filter_example:
  "\<exists>s' w' c. handleMessage noteToFrequency (NoteON 1 (Fin 60)) (example_synth (Number (Fin 1000))) = Returns (s', w') \<and>
      channels s' 1 = Some c \<and> gainNode c = Some 1 \<and> oscillator c = Some 2 \<and>
      c_note c = Number (Fin 60) \<and> Sounding s' 1 \<and>
      n_frequency (nodes w' 2) = Number (noteToFrequency (Fin 60)) \<and>
      outs (nodes w' 2) = [Node 1] \<and> starts (nodes w' 2) = 1 \<and>
      n_gain (nodes w' 1) = Number (Fin 0) \<and> outs (nodes w' 1) = [Node 0] \<and>
      outs (nodes w' 0) = [Destination]"
proof -
  let ?s = "fst (example_synth (Number (Fin 1000)))"
  let ?w = "snd (example_synth (Number (Fin 1000)))"
  let ?f = "fst (example_filter (Number (Fin 1000)) (Number (Fin 0)))"
  have h1: "Silent ?s 1" by (simp add: Silent_def example_synth_facts)
  have h2: "filter_obj ?s = Some ?f" by (simp add: example_synth_facts)
  have h3: "biquadFilter ?f < nextNode ?w" by (simp add: example_synth_facts)
  from NoteON_silent_with_filter [OF h1 h2 h3, of noteToFrequency "Fin 60"]
  obtain s' w' c where
    "handleMessage noteToFrequency (NoteON 1 (Fin 60)) (?s, ?w) = Returns (s', w')"
    "channels s' 1 = Some c" "gainNode c = Some (nextNode ?w)"
    "oscillator c = Some (nextNode ?w + 1)" "c_note c = Number (Fin 60)" "Sounding s' 1"
    "n_frequency (nodes w' (nextNode ?w + 1)) = Number (noteToFrequency (Fin 60))"
    "outs (nodes w' (nextNode ?w + 1)) = [Node (nextNode ?w)]"
    "starts (nodes w' (nextNode ?w + 1)) = 1"
    "n_gain (nodes w' (nextNode ?w)) = Number (Fin 0)"
    "outs (nodes w' (nextNode ?w)) = [Node (biquadFilter ?f)]"
    "outs (nodes w' (biquadFilter ?f)) = outs (nodes ?w (biquadFilter ?f)) @ [Destination]"
    by blast
  then show ?thesis
    by (simp add: example_synth_facts numeral_2_eq_2)
qed

text \<open>
  The constructor of the base class takes a filter and assigns it to no field, where the
  constructor of the custom class assigns \<open>this.filter\<close>. A synthesizer of the base
  class has a filter only once one is assigned to it from outside; until then a Note ON
  throws when it reaches \<open>this.filter.biquadFilter\<close>.
\<close>

lemma base_constructor_leaves_filter_unset:
  "filter_obj (fst (SubstractiveSynthetizer_new nm filt config w)) = None \<and>
   filter_obj (fst (CustomSubstractiveSynthetizer_new cb nm filt config sn cs dn w)) = filt"
  by (simp add: SubstractiveSynthetizer_new_def CustomSubstractiveSynthetizer_new_def Let_def)

lemma NoteON_without_filter_throws:
  assumes "Silent s ch" and "filter_obj s = None"
  shows "\<exists>sw. handleMessage ntf (NoteON ch nt) (s, w) = Throws TypeError sw"
  using assms
  by (cases "cls s = SubstractiveSynthetizer")
    (simp_all add: handleMessage_def this_initOscillator_def initOscillator_def
      initOscillator_custom_def Silent_def empty_channel_def node_defs Let_def)

text \<open>
  Claim C1 says that Note ON on a Silent channel creates a voice and leaves the channel
  Sounding. A synthesizer of the base class, as its own constructor makes it from a name
  and a filter, has no \<open>this.filter\<close>: Note ON on its Silent channel 1 creates the gain
  node, sets its gain and throws a TypeError at \<open>this.filter.biquadFilter\<close>. The entry
  of the channel is left without gain node, oscillator and note, so the channel is not
  Sounding, and no oscillator has been created.
\<close>

theorem NoteON_base_class_throws:
  "cls (fst example_classic) = SubstractiveSynthetizer \<and>
   Silent (fst example_classic) 1 \<and>
   filter_obj (fst example_classic) = None \<and>
   (case handleMessage noteToFrequency (NoteON 1 (Fin 60)) example_classic of
      Returns sw \<Rightarrow> False
    | Throws e sw \<Rightarrow>
        e = TypeError \<and> channels (fst sw) 1 = Some empty_channel \<and> \<not> Sounding (fst sw) 1 \<and>
        kind (nodes (snd sw) 1) = GainNode \<and> n_gain (nodes (snd sw) 1) = Number (Fin 0) \<and>
        outs (nodes (snd sw) 1) = [] \<and> nextNode (snd sw) = 2)"
  by (simp add: example_classic_def example_filter_eval SubstractiveSynthetizer_new_def
      initial_world_def defaultSynthConf_def js_or_def Silent_def Sounding_def synth_defs node_defs)

subsection \<open>The voice of a channel\<close>

lemma handleMessage_keeps_pair:
  assumes "channels s ch = Some c" and "gainNode c = Some g" and "oscillator c = Some osc"
  shows "\<exists>c'. channels (fst (state_of (handleMessage ntf m (s, w)))) ch = Some c' \<and>
              gainNode c' = Some g \<and> oscillator c' = Some osc"
proof (cases m)
  case (NoteON ch' nt)
  show ?thesis
  proof (cases "ch' = ch")
    case True
    with assms NoteON show ?thesis by (simp add: handleMessage_def)
  next
    case False
    with assms NoteON show ?thesis
      by (auto simp: synth_defs node_defs split: option.splits)
  qed
next
  case (NoteOFF ch')
  with assms show ?thesis
    by (auto simp: synth_defs node_defs split: option.splits)
next
  case (ChannelPressure ch' p)
  with assms show ?thesis
    by (auto simp: synth_defs node_defs split: option.splits)
next
  case (PitchBendChange ch' b)
  with assms show ?thesis
    by (auto simp: synth_defs node_defs split: option.splits)
next
  case (ControlChange ch' v)
  with assms show ?thesis
    by (auto simp: synth_defs node_defs split: option.splits)
next
  case OtherMessage
  with assms show ?thesis by (simp add: handleMessage_def)
qed

lemma dispatch_all_keeps_pair:
  assumes "channels (fst sw) ch = Some c" and "gainNode c = Some g" and "oscillator c = Some osc"
  shows "\<exists>c'. channels (fst (dispatch_all ntf ms sw)) ch = Some c' \<and>
              gainNode c' = Some g \<and> oscillator c' = Some osc"
  using assms
proof (induction ms arbitrary: sw c)
  case Nil
  then show ?case by simp
next
  case (Cons tm ms)
  obtain t m where tm: "tm = (t, m)" by (cases tm)
  let ?sw = "state_of (handleMessage ntf m (fst sw, (snd sw)\<lparr>currentTime := t\<rparr>))"
  from handleMessage_keeps_pair[OF Cons.prems]
  obtain c' where "channels (fst ?sw) ch = Some c'" "gainNode c' = Some g" "oscillator c' = Some osc"
    by blast
  from Cons.IH[OF this] show ?case by (simp add: tm)
qed

lemma no_node_created_on_voiced_channel:
  assumes "channels s ch = Some c" and "gainNode c = Some g" and "oscillator c = Some osc"
    and "message_channel m = Some ch"
  shows "nextNode (snd (state_of (handleMessage ntf m (s, w)))) = nextNode w"
  using assms
  by (cases m) (auto simp: handleMessage_def updateFrequency_def upd_node_def Let_def
      split: option.splits)

text \<open>
  Claim C4. The entry of a channel holds one gain node and one oscillator. Once it holds
  them, it holds the same two after every sequence of events, whether a dispatch returns
  or throws; no event addressed to that channel creates a node; and a Note ON on that
  channel changes the frequency of the oscillator and the recorded note (and remembers
  the message in \<open>this.message\<close>), nothing else.
\<close>

theorem voice_pair_is_kept:
  assumes "channels s ch = Some c" and "gainNode c = Some g" and "oscillator c = Some osc"
  shows "(\<exists>c'. channels (fst (dispatch_all ntf ms (s, w))) ch = Some c' \<and>
              gainNode c' = Some g \<and> oscillator c' = Some osc) \<and>
         (message_channel m = Some ch \<longrightarrow>
            nextNode (snd (state_of (handleMessage ntf m (s, w)))) = nextNode w) \<and>
         handleMessage ntf (NoteON ch nt) (s, w) =
           Returns
             (s\<lparr>message := Some (NoteON ch nt),
                channels := (channels s)(ch \<mapsto> c\<lparr>c_note := Number nt\<rparr>)\<rparr>,
              upd_node osc (\<lambda>nd. nd\<lparr>n_frequency := Number (ntf nt)\<rparr>) w)"
proof -
  have a: "\<exists>c'. channels (fst (dispatch_all ntf ms (s, w))) ch = Some c' \<and>
              gainNode c' = Some g \<and> oscillator c' = Some osc"
    using dispatch_all_keeps_pair [of "(s, w)" ch c g osc ntf ms] assms by simp
  have b: "message_channel m = Some ch \<longrightarrow>
            nextNode (snd (state_of (handleMessage ntf m (s, w)))) = nextNode w"
    using no_node_created_on_voiced_channel [OF assms] by blast
  have c: "handleMessage ntf (NoteON ch nt) (s, w) =
           Returns
             (s\<lparr>message := Some (NoteON ch nt),
                channels := (channels s)(ch \<mapsto> c\<lparr>c_note := Number nt\<rparr>)\<rparr>,
              upd_node osc (\<lambda>nd. nd\<lparr>n_frequency := Number (ntf nt)\<rparr>) w)"
    using assms by (simp add: handleMessage_def)
  from a b c show ?thesis by blast
qed

theorem voice_pair_is_kept_witness:
  "(\<exists>c'. channels (fst (dispatch_all noteToFrequency
        [(Fin 1, NoteOFF 1), (Fin 2, NoteON 2 (Fin 64)), (Fin 3, NoteON 1 (Fin 67)), (Fin 4, NoteOFF 3)]
        example_sounding)) 1 = Some c' \<and>
      gainNode c' = Some 1 \<and> oscillator c' = Some 2) \<and>
   nextNode (snd (state_of (handleMessage noteToFrequency (NoteON 1 (Fin 67)) example_sounding))) = 3"
proof -
  let ?c = "\<lparr>gainNode = Some 1, oscillator = Some 2, c_note = Number (Fin 60), startingPosY = Undefined\<rparr>"
  let ?ms = "[(Fin 1, NoteOFF 1), (Fin 2, NoteON 2 (Fin 64)), (Fin 3, NoteON 1 (Fin 67)), (Fin 4, NoteOFF 3)]"
  have h1: "channels (fst example_sounding) 1 = Some ?c" by (rule example_sounding_facts)
  have h2: "gainNode ?c = Some 1" by simp
  have h3: "oscillator ?c = Some 2" by simp
  have p: "(fst example_sounding, snd example_sounding) = example_sounding" by simp
  from voice_pair_is_kept [OF h1 h2 h3, of noteToFrequency ?ms
      "snd example_sounding" "NoteON 1 (Fin 67)" "Fin 67"]
  have "(\<exists>c'. channels (fst (dispatch_all noteToFrequency ?ms example_sounding)) 1 = Some c' \<and>
            gainNode c' = Some 1 \<and> oscillator c' = Some 2) \<and>
        (message_channel (NoteON 1 (Fin 67)) = Some 1 \<longrightarrow>
           nextNode (snd (state_of (handleMessage noteToFrequency (NoteON 1 (Fin 67)) example_sounding))) =
           nextNode (snd example_sounding))"
    unfolding p by blast
  then show ?thesis by (simp add: example_sounding_facts)
qed

subsection \<open>Events for a channel without a voice\<close>

text \<open>
  Pitch bend and control change test for the entry of the channel and do nothing
  without one. Note OFF and channel pressure do not test: they read a property of the
  absent entry, which throws, before anything is assigned.
\<close>

lemma silent_NoteOFF_throws:
  "Silent s ch \<Longrightarrow> handleMessage ntf (NoteOFF ch) (s, w) = Throws TypeError (s, w)"
  by (simp add: handleMessage_def Silent_def)

lemma silent_ChannelPressure_throws:
  "Silent s ch \<Longrightarrow> handleMessage ntf (ChannelPressure ch p) (s, w) = Throws TypeError (s, w)"
  by (simp add: handleMessage_def Silent_def)

lemma silent_PitchBendChange_ignored:
  "Silent s ch \<Longrightarrow> handleMessage ntf (PitchBendChange ch b) (s, w) = Returns (s, w)"
  by (simp add: handleMessage_def Silent_def)

lemma silent_ControlChange_ignored:
  "Silent s ch \<Longrightarrow> handleMessage ntf (ControlChange ch v) (s, w) = Returns (s, w)"
  by (simp add: handleMessage_def Silent_def)

text \<open>
  Claim C2 says that every event other than Note ON, sent to a channel without a voice,
  is a silent no-op that raises no error. On the example synthesizer, whose channel 1 is
  Silent, Note OFF and channel pressure on channel 1 throw a TypeError (the state is left
  as it was).
\<close>

theorem NoteOFF_without_voice_throws:
  "Silent (fst (example_synth (Number (Fin 1000)))) 1 \<and>
   handleMessage noteToFrequency (NoteOFF 1) (example_synth (Number (Fin 1000))) =
     Throws TypeError (example_synth (Number (Fin 1000))) \<and>
   handleMessage noteToFrequency (ChannelPressure 1 (Fin 64)) (example_synth (Number (Fin 1000))) =
     Throws TypeError (example_synth (Number (Fin 1000)))"
  by (simp add: synth_defs example_defs Silent_def)

subsection \<open>Control change\<close>

text \<open>
  With no baseline recorded (\<open>startingPosY\<close> absent, null, or a falsy number) the value
  becomes the baseline and nothing else happens.
\<close>

lemma ControlChange_first_value:
  assumes "channels s ch = Some c" and "\<not> truthy (startingPosY c)"
  shows "handleMessage ntf (ControlChange ch v) (s, w) =
           Returns (s\<lparr>channels := (channels s)(ch \<mapsto> c\<lparr>startingPosY := Number v\<rparr>)\<rparr>, w)"
  using assms by (simp add: handleMessage_def)

text \<open>
  With a baseline other than 0 recorded, the value sets the filter frequency to
  defaultFrequency + (v - baseline) * 10, provided that this frequency is not 0 or NaN;
  the baseline stays.
\<close>

lemma ControlChange_later_value:
  assumes "channels s ch = Some c" and "startingPosY c = Number v1" and "truthy_num v1"
    and "filter_obj s = Some f"
    and "truthy_num (jsadd (toNumber (defaultFrequency f)) (jsmul (jssub v v1) (Fin 10)))"
  shows "handleMessage ntf (ControlChange ch v) (s, w) =
           Returns
             (s\<lparr>filter_obj := Some (f\<lparr>frequency :=
                  Number (jsadd (toNumber (defaultFrequency f)) (jsmul (jssub v v1) (Fin 10)))\<rparr>)\<rparr>,
              upd_node (biquadFilter f) (\<lambda>nd. nd\<lparr>n_frequency :=
                  Number (jsadd (toNumber (defaultFrequency f)) (jsmul (jssub v v1) (Fin 10)))\<rparr>) w)"
  using assms by (simp add: handleMessage_def updateFrequency_def Let_def)

text \<open>
  Claim C3 says that the first control-change value is the baseline for all later ones.
  With the values 0, 5, 7 on a sounding channel and a default frequency of 1000: the
  test \<open>!startingPosY\<close> takes the recorded 0 for no baseline, so 5 becomes the baseline
  and leaves the filter at 1000 (claimed: 1050, baseline still 0), and 7 sets the filter
  to 1020 (claimed: 1070).
\<close>

theorem ControlChange_zero_baseline_moves:
  "map_option frequency (filter_obj (fst (dispatch_all noteToFrequency
     [(Fin 0, NoteON 1 (Fin 60)), (Fin 1, ControlChange 1 (Fin 0)), (Fin 2, ControlChange 1 (Fin 5))]
     (example_synth (Number (Fin 1000)))))) = Some (Number (Fin 1000)) \<and>
   map_option startingPosY (channels (fst (dispatch_all noteToFrequency
     [(Fin 0, NoteON 1 (Fin 60)), (Fin 1, ControlChange 1 (Fin 0)), (Fin 2, ControlChange 1 (Fin 5))]
     (example_synth (Number (Fin 1000))))) 1) = Some (Number (Fin 5)) \<and>
   map_option frequency (filter_obj (fst (dispatch_all noteToFrequency
     [(Fin 0, NoteON 1 (Fin 60)), (Fin 1, ControlChange 1 (Fin 0)), (Fin 2, ControlChange 1 (Fin 5)),
      (Fin 3, ControlChange 1 (Fin 7))]
     (example_synth (Number (Fin 1000)))))) = Some (Number (Fin 1020))"
  by (simp add: synth_defs example_defs node_defs jssub_def)

text \<open>
  The same test in \<open>updateFrequency\<close> drops a target frequency of 0: with default 100
  and the values 20, 30, 10 the filter goes to 200 and stays there, where
  100 + (10 - 20) * 10 = 0 is due.
\<close>

lemma ControlChange_zero_target_ignored:
  "map_option frequency (filter_obj (fst (dispatch_all noteToFrequency
     [(Fin 0, NoteON 1 (Fin 60)), (Fin 1, ControlChange 1 (Fin 20)), (Fin 2, ControlChange 1 (Fin 30)),
      (Fin 3, ControlChange 1 (Fin 10))]
     (example_synth (Number (Fin 100)))))) = Some (Number (Fin 200))"
  by (simp add: synth_defs example_defs node_defs jssub_def)

subsection \<open>Note OFF\<close>

text \<open>
  On a channel with a gain node, with a filter whose default frequency is not falsy,
  Note OFF schedules a linear ramp of the gain to 0 that ends at the current time plus
  the fade time, sets the filter frequency (stored and on the node) to the default,
  sets the baseline to null and keeps the gain node and the oscillator of the channel.
\<close>

lemma NoteOFF_sounding:
  assumes "channels s ch = Some c" and "gainNode c = Some g" and "filter_obj s = Some f"
    and "truthy (defaultFrequency f)"
  shows "handleMessage ntf (NoteOFF ch) (s, w) =
           Returns
             (s\<lparr>channels := (channels s)(ch \<mapsto> c\<lparr>startingPosY := Null\<rparr>),
                filter_obj := Some (f\<lparr>frequency := defaultFrequency f\<rparr>)\<rparr>,
              upd_node g (\<lambda>nd. nd\<lparr>gain_events := gain_events nd @
                  [LinearRamp (Fin 0)
                     (jsadd (currentTime w) (toNumber (conf_fadeTime (confs w (configuration s)))))]\<rparr>)
                (upd_node (biquadFilter f) (\<lambda>nd. nd\<lparr>n_frequency := defaultFrequency f\<rparr>) w))"
  using assms by (simp add: handleMessage_def updateFrequency_def Let_def upd_node_def)

text \<open>
  Claim C5 says that Note OFF on a Sounding channel resets the filter frequency to its
  default. With a filter whose default frequency is 0, after the control changes 10 and
  20 have moved the frequency to 100, Note OFF leaves it at 100, stored and on the node:
  \<open>updateFrequency(0)\<close> takes the 0 for no value.
\<close>

theorem NoteOFF_zero_default_not_reset:
  "map_option defaultFrequency (filter_obj (fst (dispatch_all noteToFrequency
     [(Fin 0, NoteON 1 (Fin 60)), (Fin 1, ControlChange 1 (Fin 10)), (Fin 2, ControlChange 1 (Fin 20)),
      (Fin 3, NoteOFF 1)]
     (example_synth (Number (Fin 0)))))) = Some (Number (Fin 0)) \<and>
   map_option frequency (filter_obj (fst (dispatch_all noteToFrequency
     [(Fin 0, NoteON 1 (Fin 60)), (Fin 1, ControlChange 1 (Fin 10)), (Fin 2, ControlChange 1 (Fin 20)),
      (Fin 3, NoteOFF 1)]
     (example_synth (Number (Fin 0)))))) = Some (Number (Fin 100)) \<and>
   n_frequency (nodes (snd (dispatch_all noteToFrequency
     [(Fin 0, NoteON 1 (Fin 60)), (Fin 1, ControlChange 1 (Fin 10)), (Fin 2, ControlChange 1 (Fin 20)),
      (Fin 3, NoteOFF 1)]
     (example_synth (Number (Fin 0))))) 0) = Number (Fin 100)"
  by (simp add: synth_defs example_defs node_defs jssub_def)

subsection \<open>Pitch bend\<close>

text \<open>
  Against claim C6 as it is worded: on the example channel with note 60 recorded, a pitch
  bend of \<open>Infinity\<close> makes the sum non-finite, and the ramp is requested all the
  same, since the code tests \<open>isNaN\<close> only.
\<close>

theorem PitchBend_infinite_is_scheduled:
  "map_option c_note (channels (fst (dispatch_all noteToFrequency
     [(Fin 0, NoteON 1 (Fin 60))] (example_synth (Number (Fin 1000))))) 1) = Some (Number (Fin 60)) \<and>
   \<not> isFinite (jsadd (Fin 60) PInf) \<and>
   frequency_events (nodes (snd (dispatch_all noteToFrequency
     [(Fin 0, NoteON 1 (Fin 60))] (example_synth (Number (Fin 1000))))) 2) = [] \<and>
   frequency_events (nodes (snd (dispatch_all noteToFrequency
     [(Fin 0, NoteON 1 (Fin 60)), (Fin 1, PitchBendChange 1 PInf)]
     (example_synth (Number (Fin 1000))))) 2) =
     [ExponentialRamp (noteToFrequency PInf) (Fin (11 / 10))]"
  by (simp add: synth_defs example_defs node_defs)

text \<open>
  A recorded note 0 is falsy: the test \<open>this.channels[channel]['note']\<close> fails and a
  finite pitch bend schedules nothing.
\<close>

lemma PitchBend_note_zero_ignored:
  "map_option c_note (channels (fst (dispatch_all noteToFrequency
     [(Fin 0, NoteON 1 (Fin 0))] (example_synth (Number (Fin 1000))))) 1) = Some (Number (Fin 0)) \<and>
   isFinite (jsadd (Fin 0) (Fin 2)) \<and>
   frequency_events (nodes (snd (dispatch_all noteToFrequency
     [(Fin 0, NoteON 1 (Fin 0)), (Fin 1, PitchBendChange 1 (Fin 2))]
     (example_synth (Number (Fin 1000))))) 2) = []"
  by (simp add: synth_defs example_defs node_defs)

text \<open>
  Claim C6, amended. For a pitch bend on a channel with an oscillator and a recorded note
  other than 0: when note + bend is NaN, nothing is scheduled and the state is unchanged;
  otherwise, an infinite sum included, an exponential ramp of the oscillator frequency to
  the frequency of note + bend, ending 0.1 s after the current time, is requested and
  nothing else changes.
\<close>

theorem PitchBend_NaN_guard:
  assumes "channels s ch = Some c" and "oscillator c = Some osc" and "c_note c = Number n"
    and "truthy_num n"
  shows "handleMessage ntf (PitchBendChange ch b) (s, w) =
     (if isNaN (jsadd n b) then Returns (s, w)
      else Returns (s, upd_node osc (\<lambda>nd. nd\<lparr>frequency_events := frequency_events nd @
             [ExponentialRamp (ntf (jsadd n b)) (jsadd (currentTime w) (Fin (1 / 10)))]\<rparr>) w))"
  using assms by (simp add: handleMessage_def Let_def)

theorem PitchBend_NaN_guard_witness:
  "handleMessage noteToFrequency (PitchBendChange 1 NaN) example_sounding = Returns example_sounding \<and>
   frequency_events (nodes (snd (state_of
     (handleMessage noteToFrequency (PitchBendChange 1 (Fin 2)) example_sounding))) 2) =
   [ExponentialRamp (noteToFrequency (Fin 62)) (Fin (1 / 10))]"
proof -
  let ?c = "\<lparr>gainNode = Some 1, oscillator = Some 2, c_note = Number (Fin 60), startingPosY = Undefined\<rparr>"
  have h1: "channels (fst example_sounding) 1 = Some ?c" by (rule example_sounding_facts)
  have h2: "oscillator ?c = Some 2" by simp
  have h3: "c_note ?c = Number (Fin 60)" by simp
  have h4: "truthy_num (Fin 60)" by simp
  have a: "handleMessage noteToFrequency (PitchBendChange 1 NaN) (fst example_sounding, snd example_sounding) =
      Returns (fst example_sounding, snd example_sounding)"
    using PitchBend_NaN_guard [OF h1 h2 h3 h4, of noteToFrequency NaN "snd example_sounding"] by simp
  have b: "handleMessage noteToFrequency (PitchBendChange 1 (Fin 2)) (fst example_sounding, snd example_sounding) =
      Returns (fst example_sounding, upd_node 2 (\<lambda>nd. nd\<lparr>frequency_events := frequency_events nd @
             [ExponentialRamp (noteToFrequency (Fin 62)) (jsadd (currentTime (snd example_sounding)) (Fin (1 / 10)))]\<rparr>)
             (snd example_sounding))"
    using PitchBend_NaN_guard [OF h1 h2 h3 h4, of noteToFrequency "Fin 2" "snd example_sounding"] by simp
  from a b show ?thesis
    by (simp add: upd_node_def example_sounding_facts)
qed

end
